theory Spec2Isabelle
  imports Main "HOL-Library.Sublist" "HOL-Library.AList"
begin

section \<open>JavaScript values and built-ins used by the note class\<close>

text \<open>
  Block and note properties are \<^verbatim>\<open>Record<string, any>\<close>. The values are the scalars the
  host's property parser produces: strings, numbers (integers) and booleans; properties
  whose value is a collection are outside the model. An absent key (\<^verbatim>\<open>undefined\<close>) is
  \<open>None\<close> of the lookup. A property bag is an association list in key order, read with
  \<open>map_of\<close>, which finds its own keys; the reads with a fixed key use names that a plain
  object does not inherit, and the one read with a variable key (in \<^verbatim>\<open>getFieldContent\<close>)
  also consults what the object inherits. Strings are lists of 8-bit characters.
\<close>

datatype jsval = JStr string | JNum int | JBool bool

type_synonym props = "(string \<times> jsval) list"

text \<open>Truthiness, as used by \<^verbatim>\<open>if (v)\<close>, \<^verbatim>\<open>v || d\<close> and \<^verbatim>\<open>v && w\<close>.\<close>

fun truthy :: "jsval \<Rightarrow> bool" where
  "truthy (JStr s) = (s \<noteq> [])"
| "truthy (JNum n) = (n \<noteq> 0)"
| "truthy (JBool b) = b"

text \<open>\<^verbatim>\<open>v || d\<close> where \<open>v\<close> may be \<^verbatim>\<open>undefined\<close>.\<close>

definition or_default :: "jsval option \<Rightarrow> jsval \<Rightarrow> jsval" where
  "or_default v d = (case v of None \<Rightarrow> d | Some x \<Rightarrow> if truthy x then x else d)"

text \<open>Truthiness of a value that may be \<^verbatim>\<open>undefined\<close>.\<close>

definition truthy_opt :: "jsval option \<Rightarrow> bool" where
  "truthy_opt v = (case v of None \<Rightarrow> False | Some x \<Rightarrow> truthy x)"

definition digit :: "nat \<Rightarrow> char" where
  "digit d = ''0123456789'' ! (d mod 10)"

fun decimal :: "nat \<Rightarrow> string" where
  "decimal n = (if n < 10 then [digit n] else decimal (n div 10) @ [digit (n mod 10)])"

declare decimal.simps [simp del]

text \<open>\<^verbatim>\<open>String(v)\<close>, \<^verbatim>\<open>v.toString()\<close> and template interpolation \<^verbatim>\<open>${v}\<close>.\<close>

fun toString :: "jsval \<Rightarrow> string" where
  "toString (JStr s) = s"
| "toString (JNum n) = (if n < 0 then CHR ''-'' # decimal (nat (- n)) else decimal (nat n))"
| "toString (JBool b) = (if b then ''true'' else ''false'')"

definition isDigit :: "char \<Rightarrow> bool" where
  "isDigit c = (c \<in> set ''0123456789'')"

definition digitValue :: "char \<Rightarrow> nat" where
  "digitValue c = of_char c - 48"

text \<open>\<^verbatim>\<open>parseInt\<close> on a non-empty string of decimal digits (what \<^verbatim>\<open>(\d+)\<close> captures).\<close>

definition parseInt :: "string \<Rightarrow> int" where
  "parseInt ds = int (foldl (\<lambda>acc c. 10 * acc + digitValue c) 0 ds)"

text \<open>\<^verbatim>\<open>toLowerCase\<close> on the ASCII letters.\<close>

definition toLowerChar :: "char \<Rightarrow> char" where
  "toLowerChar c = (let n = (of_char c :: nat) in if 65 \<le> n \<and> n \<le> 90 then char_of (n + 32) else c)"

definition toLowerCase :: "string \<Rightarrow> string" where
  "toLowerCase s = map toLowerChar s"

section \<open>Errors\<close>

text \<open>
  A rejected promise of an external collaborator carries the collaborator's error; a
  method call on a value that has no such method is a \<^verbatim>\<open>TypeError\<close>. A function that
  awaits or throws returns \<open>error + 'a\<close>.
\<close>

datatype error = Rejected string | TypeError string

definition bindE :: "error + 'a \<Rightarrow> ('a \<Rightarrow> error + 'b) \<Rightarrow> error + 'b" where
  "bindE m f = (case m of Inl e \<Rightarrow> Inl e | Inr x \<Rightarrow> f x)"

text \<open>
  \<^verbatim>\<open>Promise.all(xs.map(async ...))\<close>: the results in order, or a rejection. Which rejection
  wins when several callbacks reject depends on timing; the model reports the first in list
  order.
\<close>

fun mapE :: "('a \<Rightarrow> error + 'b) \<Rightarrow> 'a list \<Rightarrow> error + 'b list" where
  "mapE f [] = Inr []"
| "mapE f (x # xs) = bindE (f x) (\<lambda>y. bindE (mapE f xs) (\<lambda>ys. Inr (y # ys)))"

section \<open>Data model\<close>

text \<open>
  \<^verbatim>\<open>ExtendedBlockEntity\<close>. Optional members that the code reads through \<^verbatim>\<open>|| {}\<close>,
  \<^verbatim>\<open>|| []\<close> or \<^verbatim>\<open>?.\<close> are empty when absent; \<open>block_parent\<close> and \<open>block_page\<close> hold
  the \<^verbatim>\<open>id\<close> of the referenced entity.
\<close>

datatype block = Block
  (block_uuid: string)
  (block_content: string)
  (block_format: string)
  (block_properties: props)
  (block_refs: "int list")
  (block_parent: "int option")
  (block_page: "int option")
  (block_children: "block list")

record page =
  page_id :: int
  page_name :: string

text \<open>The base class \<^verbatim>\<open>Note\<close> and its subclass \<^verbatim>\<open>MultilineCardNote\<close>.\<close>

record Note =
  uuid :: string
  content :: string
  format :: string
  properties :: props
  page :: "page option"
  tagIds :: "int list"

record MultilineCardNote = Note +
  children :: "block list"
  tags :: "string list"

text \<open>\<^verbatim>\<open>HTMLFile\<close>, the result of the content renderer and of the card assembly.\<close>

record htmlFile =
  html :: string
  assets :: "string set"
  htmlTags :: "string list"

text \<open>
  A row of a block query (\<^verbatim>\<open>block[0]\<close>) together with the member
  \<^verbatim>\<open>tagsFromParentCardGroup\<close> that the extraction attaches to it.
\<close>

record blockRow =
  entity :: block
  tagsFromParentCardGroup :: "string list option"

text \<open>An argument that is a name or uuid (a string) or a numeric id.\<close>

datatype ref = Name string | Id int

text \<open>
  The collaborators outside this file: the content renderer, the escaping utility, the
  graph query proxy (\<^verbatim>\<open>LogseqProxy\<close>; every call may reject), the results of the three
  fixed block queries, \<^verbatim>\<open>getUUIDFromBlock\<close>, \<^verbatim>\<open>Note.removeUnwantedNotes\<close>, and the
  built-ins \<^verbatim>\<open>JSON.stringify\<close> (on a string-to-string record) and the numeric value of a
  string (\<open>None\<close> is \<^verbatim>\<open>NaN\<close>). A plain object inherits the members of
  \<^verbatim>\<open>Object.prototype\<close> (\<^verbatim>\<open>constructor\<close>, \<^verbatim>\<open>toString\<close>, ...), which are functions
  or objects and so truthy: \<open>inheritedMember\<close> gives the string form of the member
  inherited under a name, and \<open>None\<close> for a name under which nothing is inherited.
\<close>

record env =
  convertToHTMLFile :: "string \<Rightarrow> string \<Rightarrow> error + htmlFile"
  escapeClozesAndMacroDelimiters :: "string \<Rightarrow> string"
  getPage :: "ref \<Rightarrow> error + page option"
  getBlock :: "ref \<Rightarrow> bool \<Rightarrow> error + block option"
  logseqCard_blocks :: "error + block list"
  flashCard_blocks :: "error + block list"
  logseqCardGroup_blocks :: "error + block list"
  getUUIDFromBlock :: "block \<Rightarrow> string"
  removeUnwantedNotes :: "MultilineCardNote option list \<Rightarrow> error + MultilineCardNote list"
  JSON_stringify :: "(string \<times> string) list \<Rightarrow> string"
  stringToNumber :: "string \<Rightarrow> int option"
  inheritedMember :: "string \<Rightarrow> string option"

section \<open>Tag resolver\<close>

text \<open>\<^verbatim>\<open>NoteUtils.matchTagNamesWithTagIds\<close>: the loop with its accumulator \<open>result\<close>.\<close>

fun matchLoop :: "env \<Rightarrow> int set \<Rightarrow> string list \<Rightarrow> string list \<Rightarrow> error + string list" where
  "matchLoop E tagIdsSet [] result = Inr result"
| "matchLoop E tagIdsSet (tagName # rest) result =
     bindE (getPage E (Name tagName)) (\<lambda>tagPage.
       matchLoop E tagIdsSet rest
         (if (case tagPage of None \<Rightarrow> False
              | Some p \<Rightarrow> page_id p \<noteq> 0 \<and> page_id p \<in> tagIdsSet)
          then result @ [tagName] else result))"

definition matchTagNamesWithTagIds :: "env \<Rightarrow> int list \<Rightarrow> string list \<Rightarrow> error + string list" where
  "matchTagNamesWithTagIds E ids tagNames = matchLoop E (set ids) tagNames []"

text \<open>The candidate vocabulary of \<^verbatim>\<open>getRelevantTags\<close>.\<close>

definition relevantTagNames :: "string list" where
  "relevantTagNames =
     [''forward'', ''reversed'', ''bidirectional'', ''incremental'']
     @ map (\<lambda>i. ''depth-'' @ decimal i) [0..<10]"

definition getRelevantTags :: "env \<Rightarrow> int list \<Rightarrow> error + string list" where
  "getRelevantTags E ids = matchTagNamesWithTagIds E ids relevantTagNames"

section \<open>Card classifier and field resolver\<close>

definition getCardDirection :: "MultilineCardNote \<Rightarrow> string" where
  "getCardDirection n =
     (let fromTags =
            (if (''reversed'' \<in> set (tags n) \<and> ''forward'' \<in> set (tags n))
                \<or> ''bidirectional'' \<in> set (tags n) then ''<->''
             else if ''reversed'' \<in> set (tags n) then ''<-''
             else ''->'')
      in case map_of (properties n) ''direction'' of
           Some (JStr direction) \<Rightarrow>
             if direction \<noteq> ''->'' \<and> direction \<noteq> ''<-'' \<and> direction \<noteq> ''<->''
             then fromTags else direction
         | _ \<Rightarrow> fromTags)"

text \<open>
  \<^verbatim>\<open>/^depth-(\d+)$/i.exec(tag)\<close>: the captured digits, or \<open>None\<close> when the tag does not
  match. The flag \<^verbatim>\<open>i\<close> makes the letters of \<^verbatim>\<open>depth\<close> match in either case.
\<close>

definition depthTagMatch :: "string \<Rightarrow> string option" where
  "depthTagMatch tag =
     (if toLowerCase (take 6 tag) = ''depth-'' \<and> drop 6 tag \<noteq> [] \<and> list_all isDigit (drop 6 tag)
      then Some (drop 6 tag) else None)"

definition getChildrenMaxDepth :: "MultilineCardNote \<Rightarrow> jsval" where
  "getChildrenMaxDepth n =
     foldl (\<lambda>maxDepth tag. case depthTagMatch tag of
                               Some digits \<Rightarrow> JNum (parseInt digits)
                             | None \<Rightarrow> maxDepth)
       (or_default (map_of (properties n) ''depth'') (JNum 9999))
       (tags n)"

text \<open>The numeric value of a JavaScript value in a comparison; \<open>None\<close> is \<^verbatim>\<open>NaN\<close>.\<close>

fun toNumber :: "env \<Rightarrow> jsval \<Rightarrow> int option" where
  "toNumber E (JNum n) = Some n"
| "toNumber E (JBool b) = Some (if b then 1 else 0)"
| "toNumber E (JStr s) = stringToNumber E s"

text \<open>\<^verbatim>\<open>level >= maxDepth\<close>; a comparison with \<^verbatim>\<open>NaN\<close> is false.\<close>

definition level_ge :: "env \<Rightarrow> nat \<Rightarrow> jsval \<Rightarrow> bool" where
  "level_ge E level maxDepth = (case toNumber E maxDepth of None \<Rightarrow> False | Some m \<Rightarrow> m \<le> int level)"

text \<open>
  The closure \<^verbatim>\<open>getChildrenListHTML\<close> of \<^verbatim>\<open>getChildrenContent\<close>, with its captured
  \<open>maxDepth\<close> as a parameter; \<open>childrenLoop\<close> is its \<^verbatim>\<open>for\<close> loop over the children, with
  the string built so far.
\<close>

fun getChildrenListHTML :: "env \<Rightarrow> jsval \<Rightarrow> block list \<Rightarrow> nat \<Rightarrow> error + string"
  and childrenLoop :: "env \<Rightarrow> jsval \<Rightarrow> block list \<Rightarrow> nat \<Rightarrow> string \<Rightarrow> error + string"
where
  \<open>getChildrenListHTML E maxDepth childrenList level =
     (if level_ge E level maxDepth then Inr ''''
      else bindE (childrenLoop E maxDepth childrenList level
                    ''\<newline><ul class="children-list left-border">'')
             (\<lambda>childrenListHTML. Inr (childrenListHTML @ ''</ul>'')))\<close>
| \<open>childrenLoop E maxDepth [] level childrenListHTML = Inr childrenListHTML\<close>
| \<open>childrenLoop E maxDepth (Block u c f ps rs pa pg cs # rest) level childrenListHTML =
     (let opened = childrenListHTML @ ''\<newline><li class="children ''
            @ (if map_of ps ''logseq.orderListType'' = Some (JStr ''number'')
               then ''numbered'' else '''')
            @ ''">'';
          escaped = escapeClozesAndMacroDelimiters E c;
          sanitizedChildContent =
            (case map_of ps ''extra'' of
               None \<Rightarrow> escaped
             | Some childExtra \<Rightarrow>
                 if truthy childExtra
                 then escaped @ ''\<newline><div class="extra">'' @ toString childExtra @ ''</div>''
                 else escaped)
      in bindE (convertToHTMLFile E sanitizedChildContent f) (\<lambda>sanitizedChildHTMLFile.
         bindE (if cs \<noteq> [] then getChildrenListHTML E maxDepth cs (level + 1) else Inr '''')
           (\<lambda>nested.
              childrenLoop E maxDepth rest level
                (opened @ html sanitizedChildHTMLFile @ nested @ ''</li>''))))\<close>

declare getChildrenListHTML.simps [simp del]

definition getChildrenContent :: "env \<Rightarrow> MultilineCardNote \<Rightarrow> error + string" where
  "getChildrenContent E n = getChildrenListHTML E (getChildrenMaxDepth n) (children n) 0"

text \<open>
  In the default branch \<^verbatim>\<open>this.properties[fieldMapping]\<close> reads an own key of the property
  bag, or else what the bag inherits under that name.
\<close>

definition getFieldContent :: "env \<Rightarrow> MultilineCardNote \<Rightarrow> jsval \<Rightarrow> error + string" where
  "getFieldContent E n fieldMapping =
     (if fieldMapping = JStr ''content''
      then bindE (convertToHTMLFile E (content n) (format n)) (\<lambda>contentHtml. Inr (html contentHtml))
      else if fieldMapping = JStr ''children''
      then getChildrenContent E n
      else (case map_of (properties n) (toString fieldMapping) of
              Some v \<Rightarrow> if truthy v then Inr (toString v) else Inr ''''
            | None \<Rightarrow>
                (case inheritedMember E (toString fieldMapping) of
                   Some inherited \<Rightarrow> Inr inherited
                 | None \<Rightarrow> Inr '''')))"

text \<open>
  The loop of \<^verbatim>\<open>getClozedContentHTML\<close> over \<^verbatim>\<open>Object.entries(this.properties)\<close>, with
  the record \<open>fieldContent\<close> built so far. The key starts with \<^verbatim>\<open>anki-field-\<close>, so
  replacing its first occurrence removes the first 11 characters. Assigning to a key of the
  record overwrites the key in place or appends it; the record is kept in insertion order.
\<close>

fun fieldLoop ::
  "env \<Rightarrow> MultilineCardNote \<Rightarrow> props \<Rightarrow> (string \<times> string) list \<Rightarrow> error + (string \<times> string) list"
where
  "fieldLoop E n [] fieldContent = Inr fieldContent"
| "fieldLoop E n ((key, mapping) # rest) fieldContent =
     (if prefix ''anki-field-'' key
      then bindE (getFieldContent E n mapping) (\<lambda>resolved.
             fieldLoop E n rest (AList.update (drop 11 key) resolved fieldContent))
      else fieldLoop E n rest fieldContent)"

text \<open>The template of the card body: the hidden metadata block, then the main content.\<close>

definition cardHTML :: "string \<Rightarrow> string \<Rightarrow> string \<Rightarrow> string" where
  \<open>cardHTML ankiModel fieldsJSON mainContent =
     ''\<newline>            <div class="anki-custom-data" style="display:none">''
     @ ''\<newline>                <div class="anki-model">'' @ ankiModel @ ''</div>''
     @ ''\<newline>                <div class="anki-fields">'' @ fieldsJSON @ ''</div>''
     @ ''\<newline>            </div>''
     @ ''\<newline>            '' @ mainContent
     @ ''\<newline>        ''\<close>

text \<open>\<^verbatim>\<open>mainContent\<close> of \<^verbatim>\<open>getClozedContentHTML\<close>.\<close>

definition getMainContent :: "env \<Rightarrow> MultilineCardNote \<Rightarrow> error + string" where
  "getMainContent E n =
     (let direction = getCardDirection n
      in if direction = ''<-'' \<or> direction = ''<->''
         then getFieldContent E n (JStr ''children'')
         else getFieldContent E n (JStr ''content''))"

definition getClozedContentHTML :: "env \<Rightarrow> MultilineCardNote \<Rightarrow> error + htmlFile" where
  "getClozedContentHTML E n =
     bindE (fieldLoop E n (properties n) []) (\<lambda>declared.
     bindE (getMainContent E n) (\<lambda>mainContent.
     let ankiModel = or_default (map_of (properties n) ''anki-model'') (JStr ''Basic'')
     in bindE
          (if declared = [] then
             (case ankiModel of
                JStr model \<Rightarrow>
                  if sublist ''cloze'' (toLowerCase model)
                  then Inr (AList.update ''Text'' mainContent declared)
                  else bindE (getFieldContent E n (JStr ''children'')) (\<lambda>back.
                         Inr (AList.update ''Back'' back
                                (AList.update ''Front'' mainContent declared)))
              | _ \<Rightarrow> Inl (TypeError ''ankiModel.toLowerCase is not a function''))
           else Inr declared)
          (\<lambda>fieldContent.
             Inr \<lparr>html = cardHTML (toString ankiModel) (JSON_stringify E fieldContent) mainContent,
                  assets = {}, htmlTags = []\<rparr>)))"

section \<open>Extraction and candidate deduplication\<close>

text \<open>
  The first callback of \<^verbatim>\<open>getNotesFromLogseqBlocks\<close>: a block found by the card-group
  query gets the relevant tags of its parent block. (The callback also computes the uuid of
  the block and does not use it.)
\<close>

definition attachParentTags :: "env \<Rightarrow> block \<Rightarrow> error + blockRow" where
  "attachParentTags E blockEntity =
     bindE (case block_parent blockEntity of
              None \<Rightarrow> Inr None
            | Some parent \<Rightarrow> if parent \<noteq> 0 then getBlock E (Id parent) False else Inr None)
       (\<lambda>parentBlock.
     bindE (case parentBlock of
              None \<Rightarrow> Inr []
            | Some pb \<Rightarrow> getRelevantTags E (block_refs pb))
       (\<lambda>parentTags.
          Inr \<lparr>entity = blockEntity, tagsFromParentCardGroup = Some parentTags\<rparr>))"

text \<open>A block found by the other two queries has no such member.\<close>

definition plainRow :: "block \<Rightarrow> blockRow" where
  "plainRow blockEntity = \<lparr>entity = blockEntity, tagsFromParentCardGroup = None\<rparr>"

text \<open>The second callback: the note built from a row, or \<open>None\<close> (\<^verbatim>\<open>null\<close>).\<close>

definition buildNote :: "env \<Rightarrow> blockRow \<Rightarrow> error + MultilineCardNote option" where
  "buildNote E row =
     (let blockEntity = entity row;
          blockUuid = getUUIDFromBlock E blockEntity
      in bindE (case block_page blockEntity of
                  None \<Rightarrow> Inr None
                | Some pageId \<Rightarrow> getPage E (Id pageId))
           (\<lambda>notePage.
         let fromParent = (case tagsFromParentCardGroup row of None \<Rightarrow> [] | Some ts \<Rightarrow> ts)
         in bindE (getBlock E (Name blockUuid) True) (\<lambda>fullBlock.
              case fullBlock of
                None \<Rightarrow> Inr None
              | Some fb \<Rightarrow>
                  bindE (getRelevantTags E (block_refs fb)) (\<lambda>ownTags.
                    Inr (Some \<lparr>uuid = blockUuid,
                               content = block_content fb,
                               format = block_format fb,
                               properties = block_properties fb,
                               page = notePage,
                               tagIds = block_refs fb,
                               children = block_children fb,
                               tags = (if ownTags \<noteq> [] then ownTags else fromParent)\<rparr>)))))"

text \<open>The rows the notes are built from, and the notes before the two filters.\<close>

definition collectRows :: "env \<Rightarrow> error + blockRow list" where
  "collectRows E =
     bindE (logseqCard_blocks E) (\<lambda>cardRows.
     bindE (flashCard_blocks E) (\<lambda>flashRows.
     bindE (logseqCardGroup_blocks E) (\<lambda>groupRows.
     bindE (mapE (attachParentTags E) groupRows) (\<lambda>groupRows'.
       Inr (map plainRow cardRows @ map plainRow flashRows @ groupRows')))))"

definition constructNotes :: "env \<Rightarrow> error + MultilineCardNote option list" where
  "constructNotes E = bindE (collectRows E) (\<lambda>rows. mapE (buildNote E) rows)"

text \<open>The predicate of the final \<^verbatim>\<open>_.filter\<close>.\<close>

definition retainNote :: "'a Note_scheme list \<Rightarrow> MultilineCardNote \<Rightarrow> bool" where
  "retainNote otherNotes n =
     (truthy_opt (map_of (properties n) ''direction'')
      \<or> ''forward'' \<in> set (tags n)
      \<or> ''bidirectional'' \<in> set (tags n)
      \<or> ''reversed'' \<in> set (tags n)
      \<or> length (children n) > 0
      \<or> find (\<lambda>other. uuid other = uuid n) otherNotes = None)"

definition dedupFilter :: "'a Note_scheme list \<Rightarrow> MultilineCardNote list \<Rightarrow> MultilineCardNote list" where
  "dedupFilter otherNotes notes = filter (retainNote otherNotes) notes"

definition getNotesFromLogseqBlocks :: "env \<Rightarrow> 'a Note_scheme list \<Rightarrow> error + MultilineCardNote list" where
  "getNotesFromLogseqBlocks E otherNotes =
     bindE (constructNotes E) (\<lambda>built.
     bindE (removeUnwantedNotes E built) (\<lambda>wanted.
       Inr (dedupFilter otherNotes wanted)))"

section \<open>Auxiliary notions for the properties\<close>

text \<open>
  \<open>cutBelow d b\<close> is the block \<open>b\<close> without its descendants more than \<open>d\<close> levels below
  it: \<open>cutBelow 0\<close> removes all children, \<open>cutBelow 1\<close> keeps the children and removes
  the grandchildren, and so on.
\<close>

fun cutBelow :: "nat \<Rightarrow> block \<Rightarrow> block" where
  "cutBelow 0 (Block u c f ps rs pa pg cs) = Block u c f ps rs pa pg []"
| "cutBelow (Suc d) (Block u c f ps rs pa pg cs) = Block u c f ps rs pa pg (map (cutBelow d) cs)"

section \<open>A small graph\<close>

text \<open>
  A graph with the pages the plugin creates, a page \<^verbatim>\<open>depth-0\<close> created by the user, a
  card-group block with two children, and a card block. The renderer and the escaping are
  the identity; the serialiser of the field record is a stand-in.
\<close>

definition samplePages :: "(string \<times> int) list" where
  "samplePages =
     [(''forward'', 11), (''reversed'', 12), (''bidirectional'', 13), (''incremental'', 14),
      (''depth-0'', 20), (''depth-1'', 21), (''depth-2'', 22), (''card-group'', 30)]"

definition answerBlock :: block where
  "answerBlock = Block ''a1'' ''Answer 1'' ''markdown'' [] [] (Some 101) (Some 1) []"

definition groupParent :: block where
  "groupParent = Block ''p'' ''Group'' ''markdown'' [] [30, 12] None (Some 1) []"

definition groupChild :: block where
  "groupChild = Block ''b'' ''Question?'' ''markdown'' [] [] (Some 100) (Some 1) [answerBlock]"

definition taggedChild :: block where
  "taggedChild = Block ''c'' ''Other?'' ''markdown'' [] [11] (Some 100) (Some 1) []"

definition zeroDepthBlock :: block where
  "zeroDepthBlock = Block ''z'' ''Zero'' ''markdown'' [] [20] None None [answerBlock]"

definition sampleEnv :: env where
  "sampleEnv =
     \<lparr>convertToHTMLFile = (\<lambda>s f. Inr \<lparr>html = s, assets = {}, htmlTags = []\<rparr>),
      escapeClozesAndMacroDelimiters = (\<lambda>s. s),
      getPage = (\<lambda>r. case r of
                   Name nm \<Rightarrow> Inr (map_option (\<lambda>i. \<lparr>page_id = i, page_name = nm\<rparr>)
                                     (map_of samplePages nm))
                 | Id i \<Rightarrow> Inr None),
      getBlock = (\<lambda>r includeChildren. case r of
                   Id i \<Rightarrow> Inr (if i = 100 then Some groupParent else None)
                 | Name u \<Rightarrow> Inr (map_of [(''b'', groupChild), (''c'', taggedChild),
                                            (''z'', zeroDepthBlock)] u)),
      logseqCard_blocks = Inr [zeroDepthBlock],
      flashCard_blocks = Inr [],
      logseqCardGroup_blocks = Inr [groupChild, taggedChild],
      getUUIDFromBlock = block_uuid,
      removeUnwantedNotes = (\<lambda>ns. Inr (List.map_filter (\<lambda>x. x) ns)),
      JSON_stringify = (\<lambda>fs. concat (map (\<lambda>(k, v). k @ ''='' @ v @ '';'') fs)),
      stringToNumber = (\<lambda>s. None),
      inheritedMember =
        map_of [(''constructor'', ''function Object() { [native code] }''),
                (''toString'', ''function toString() { [native code] }''),
                (''valueOf'', ''function valueOf() { [native code] }''),
                (''hasOwnProperty'', ''function hasOwnProperty() { [native code] }'')]\<rparr>"

text \<open>The same graph when the lookup of the page \<^verbatim>\<open>reversed\<close> is rejected.\<close>

definition rejectingEnv :: env where
  "rejectingEnv =
     sampleEnv\<lparr>getPage := (\<lambda>r. if r = Name ''reversed'' then Inl (Rejected ''getPage failed'')
                                else getPage sampleEnv r)\<rparr>"

section \<open>Lemmas about the built-ins\<close>

lemma digit_isDigit: "isDigit (digit d)"
proof -
  have "d mod 10 < length ''0123456789''" by simp
  then have "''0123456789'' ! (d mod 10) \<in> set ''0123456789''" by (rule nth_mem)
  then show ?thesis by (simp only: isDigit_def digit_def)
qed

lemma digitValue_digit: "d < 10 \<Longrightarrow> digitValue (digit d) = d"
proof -
  assume "d < 10"
  then have "d \<in> {0,1,2,3,4,5,6,7,8,9}" by auto
  then show ?thesis by (auto simp: digit_def digitValue_def)
qed

lemma decimal_nonempty: "decimal k \<noteq> []"
  by (subst decimal.simps) simp

lemma decimal_digits: "list_all isDigit (decimal k)"
proof (induction k rule: decimal.induct)
  case (1 n)
  show ?case
    by (subst decimal.simps) (use 1 in \<open>simp add: digit_isDigit\<close>)
qed

lemma foldl_decimal: "foldl (\<lambda>acc c. 10 * acc + digitValue c) 0 (decimal k) = k"
proof (induction k rule: decimal.induct)
  case (1 n)
  show ?case
  proof (cases "n < 10")
    case True
    then show ?thesis by (subst decimal.simps) (simp add: digitValue_digit)
  next
    case False
    with 1 have "foldl (\<lambda>acc c. 10 * acc + digitValue c) 0 (decimal (n div 10)) = n div 10"
      by simp
    with False show ?thesis by (subst decimal.simps) (simp add: digitValue_digit)
  qed
qed

lemma parseInt_decimal: "parseInt (decimal k) = int k"
  by (simp add: parseInt_def foldl_decimal)

lemma toLowerCase_depth: "toLowerCase ''depth-'' = ''depth-''"
  by (simp add: toLowerCase_def toLowerChar_def)

text \<open>A tag \<^verbatim>\<open>depth-<N>\<close> matches the pattern, and its digits are read back as \<open>N\<close>.\<close>

lemma depthTagMatch_literal: "depthTagMatch (''depth-'' @ decimal k) = Some (decimal k)"
  by (simp add: depthTagMatch_def toLowerCase_depth decimal_nonempty decimal_digits)

lemma relevantTagNames_eq:
  "relevantTagNames =
     [''forward'', ''reversed'', ''bidirectional'', ''incremental'',
      ''depth-0'', ''depth-1'', ''depth-2'', ''depth-3'', ''depth-4'', ''depth-5'',
      ''depth-6'', ''depth-7'', ''depth-8'', ''depth-9'']"
  by (simp add: relevantTagNames_def upt_rec decimal.simps digit_def)

section \<open>Direction resolution\<close>

text \<open>
  C1. \<^verbatim>\<open>getCardDirection\<close> returns the value of the \<^verbatim>\<open>direction\<close> property whenever
  that value is one of \<^verbatim>\<open>->\<close>, \<^verbatim>\<open><-\<close>, \<^verbatim>\<open><->\<close>. Otherwise it returns \<^verbatim>\<open><->\<close> if the
  tags contain both \<^verbatim>\<open>forward\<close> and \<^verbatim>\<open>reversed\<close> or contain \<^verbatim>\<open>bidirectional\<close>, else
  \<^verbatim>\<open><-\<close> if the tags contain \<^verbatim>\<open>reversed\<close>, else \<^verbatim>\<open>->\<close>; for all tags and properties.
\<close>

theorem getCardDirection_resolution:
  "(map_of (properties n) ''direction'' = Some (JStr d) \<and> d \<in> {''->'', ''<-'', ''<->''}
      \<longrightarrow> getCardDirection n = d)
   \<and> ((\<forall>d \<in> {''->'', ''<-'', ''<->''}. map_of (properties n) ''direction'' \<noteq> Some (JStr d))
      \<longrightarrow> getCardDirection n =
           (if (''forward'' \<in> set (tags n) \<and> ''reversed'' \<in> set (tags n))
               \<or> ''bidirectional'' \<in> set (tags n) then ''<->''
            else if ''reversed'' \<in> set (tags n) then ''<-''
            else ''->''))"
  by (auto simp: getCardDirection_def Let_def split: option.splits jsval.splits)

theorem getCardDirection_resolution_witness:
  "getCardDirection
     \<lparr>uuid = ''u1'', content = ''Q'', format = ''markdown'',
       properties = [(''direction'', JStr ''->'')], page = None, tagIds = [],
       children = [], tags = [''reversed'']\<rparr> = ''->''
   \<and> getCardDirection
     \<lparr>uuid = ''u1'', content = ''Q'', format = ''markdown'',
       properties = [(''direction'', JStr ''both'')], page = None, tagIds = [],
       children = [], tags = [''reversed'', ''forward'']\<rparr> = ''<->''
   \<and> getCardDirection
     \<lparr>uuid = ''u1'', content = ''Q'', format = ''markdown'',
       properties = [], page = None, tagIds = [],
       children = [], tags = [''reversed'']\<rparr> = ''<-''"
  using getCardDirection_resolution [of
      "\<lparr>uuid = ''u1'', content = ''Q'', format = ''markdown'',
       properties = [(''direction'', JStr ''->'')], page = None, tagIds = [],
       children = [], tags = [''reversed'']\<rparr>" "''->''"]
    getCardDirection_resolution [of
      "\<lparr>uuid = ''u1'', content = ''Q'', format = ''markdown'',
       properties = [(''direction'', JStr ''both'')], page = None, tagIds = [],
       children = [], tags = [''reversed'', ''forward'']\<rparr>"]
    getCardDirection_resolution [of
      "\<lparr>uuid = ''u1'', content = ''Q'', format = ''markdown'',
       properties = [], page = None, tagIds = [],
       children = [], tags = [''reversed'']\<rparr>"]
  by simp

section \<open>Depth resolution\<close>

lemma foldl_depth_nomatch:
  "list_all (\<lambda>t. depthTagMatch t = None) ts \<Longrightarrow>
   foldl (\<lambda>maxDepth tag. case depthTagMatch tag of
                             Some digits \<Rightarrow> JNum (parseInt digits)
                           | None \<Rightarrow> maxDepth) d ts = d"
  by (induction ts arbitrary: d) simp_all

text \<open>
  C3, as the code has it. When no tag matches \<^verbatim>\<open>depth-<N>\<close>, \<^verbatim>\<open>getChildrenMaxDepth\<close>
  returns the value of the \<^verbatim>\<open>depth\<close> property if that value is present and truthy, and
  9999 if it is absent or falsy (0, the empty string, false). A tag \<^verbatim>\<open>depth-<N>\<close>
  overrides this with \<open>N\<close>, and of several depth tags the last one in the order of the
  tag list decides.
\<close>

theorem getChildrenMaxDepth_resolution:
  "(list_all (\<lambda>t. depthTagMatch t = None) (tags n)
        \<and> map_of (properties n) ''depth'' = Some v \<and> truthy v
      \<longrightarrow> getChildrenMaxDepth n = v)
   \<and> (list_all (\<lambda>t. depthTagMatch t = None) (tags n)
        \<and> (map_of (properties n) ''depth'' = None
            \<or> (\<exists>w. map_of (properties n) ''depth'' = Some w \<and> \<not> truthy w))
      \<longrightarrow> getChildrenMaxDepth n = JNum 9999)
   \<and> (tags n = before @ [''depth-'' @ decimal k] @ after
        \<and> list_all (\<lambda>t. depthTagMatch t = None) after
      \<longrightarrow> getChildrenMaxDepth n = JNum (int k))"
  by (auto simp: getChildrenMaxDepth_def foldl_depth_nomatch or_default_def
      depthTagMatch_literal [simplified] parseInt_decimal)

theorem getChildrenMaxDepth_resolution_witness:
  "getChildrenMaxDepth
     \<lparr>uuid = ''u1'', content = ''Q'', format = ''markdown'',
       properties = [(''depth'', JNum 3)], page = None, tagIds = [],
       children = [], tags = [''forward'']\<rparr> = JNum 3
   \<and> getChildrenMaxDepth
     \<lparr>uuid = ''u1'', content = ''Q'', format = ''markdown'',
       properties = [(''depth'', JBool False)], page = None, tagIds = [],
       children = [], tags = [''forward'']\<rparr> = JNum 9999
   \<and> getChildrenMaxDepth
     \<lparr>uuid = ''u1'', content = ''Q'', format = ''markdown'',
       properties = [(''depth'', JNum 3)], page = None, tagIds = [],
       children = [], tags = [''depth-1'', ''depth-2'', ''reversed'']\<rparr> = JNum 2"
  using getChildrenMaxDepth_resolution [of
      "\<lparr>uuid = ''u1'', content = ''Q'', format = ''markdown'',
       properties = [(''depth'', JNum 3)], page = None, tagIds = [],
       children = [], tags = [''forward'']\<rparr>" "JNum 3"]
    getChildrenMaxDepth_resolution [of
      "\<lparr>uuid = ''u1'', content = ''Q'', format = ''markdown'',
       properties = [(''depth'', JBool False)], page = None, tagIds = [],
       children = [], tags = [''forward'']\<rparr>"]
    getChildrenMaxDepth_resolution [of
      "\<lparr>uuid = ''u1'', content = ''Q'', format = ''markdown'',
       properties = [(''depth'', JNum 3)], page = None, tagIds = [],
       children = [], tags = [''depth-1'', ''depth-2'', ''reversed'']\<rparr>"
      _ "[''depth-1'']" 2 "[''reversed'']"]
  by (simp add: depthTagMatch_def toLowerCase_def toLowerChar_def isDigit_def decimal.simps
      digit_def)

text \<open>
  A note whose \<^verbatim>\<open>depth\<close> property is present with the value 0 and that has no tags: the
  result is 9999, not the value of the property.
\<close>

theorem getChildrenMaxDepth_zero_counterexample:
  "map_of (properties
     \<lparr>uuid = ''u1'', content = ''Q'', format = ''markdown'',
       properties = [(''depth'', JNum 0)], page = None, tagIds = [],
       children = [], tags = []\<rparr>) ''depth'' = Some (JNum 0)
   \<and> getChildrenMaxDepth
     \<lparr>uuid = ''u1'', content = ''Q'', format = ''markdown'',
       properties = [(''depth'', JNum 0)], page = None, tagIds = [],
       children = [], tags = []\<rparr> = JNum 9999"
  by (simp add: getChildrenMaxDepth_def or_default_def)

section \<open>Field content resolution\<close>

text \<open>
  A mapping other than \<^verbatim>\<open>content\<close> and \<^verbatim>\<open>children\<close> is looked up as a property name
  and never raises. The result is the string form of an own property with a truthy value and
  the empty string for an own property with a falsy value; for a name that is no own key it
  is the string form of what the property bag inherits under that name, and the empty string
  if it inherits nothing.
\<close>

lemma getFieldContent_property:
  "m \<noteq> ''content'' \<Longrightarrow> m \<noteq> ''children'' \<Longrightarrow>
   getFieldContent E n (JStr m) =
     Inr (case map_of (properties n) m of
            Some v \<Rightarrow> if truthy v then toString v else ''''
          | None \<Rightarrow> (case inheritedMember E m of Some inherited \<Rightarrow> inherited | None \<Rightarrow> ''''))"
  by (simp add: getFieldContent_def split: option.splits)


text \<open>
  C4 at a property that is present with the value 0: the field resolves to the empty string,
  while the string form of the value is \<^verbatim>\<open>0\<close>.
\<close>

theorem getFieldContent_falsy_property:
  "map_of (properties
     \<lparr>uuid = ''u1'', content = ''Q'', format = ''markdown'',
       properties = [(''anki-field-Count'', JStr ''count''), (''count'', JNum 0)], page = None, tagIds = [],
       children = [], tags = []\<rparr>) ''count''
     = Some (JNum 0)
   \<and> getFieldContent E
     \<lparr>uuid = ''u1'', content = ''Q'', format = ''markdown'',
       properties = [(''anki-field-Count'', JStr ''count''), (''count'', JNum 0)], page = None, tagIds = [],
       children = [], tags = []\<rparr>
     (JStr ''count'') = Inr ''''
   \<and> toString (JNum 0) = ''0''"
  by (simp add: getFieldContent_def decimal.simps digit_def)

section \<open>Lemmas about results and the sample graph\<close>

lemma bindE_simps [simp]: "bindE (Inl e) f = Inl e" "bindE (Inr x) f = f x"
  by (simp_all add: bindE_def)

lemma bindE_Inr_iff: "(bindE m f = Inr y) = (\<exists>x. m = Inr x \<and> f x = Inr y)"
  by (cases m) simp_all

lemma mapE_Inr_member:
  "mapE f xs = Inr ys \<Longrightarrow> y \<in> set ys \<Longrightarrow> \<exists>x \<in> set xs. f x = Inr y"
proof (induction xs arbitrary: ys)
  case Nil
  then show ?case by simp
next
  case (Cons x xs)
  from Cons.prems(1) obtain z zs where
    z: "f x = Inr z" and zs: "mapE f xs = Inr zs" and ys: "ys = z # zs"
    by (auto simp: bindE_Inr_iff)
  show ?case
  proof (cases "y = z")
    case True
    with z show ?thesis by simp
  next
    case False
    with Cons.prems(2) ys have "y \<in> set zs" by simp
    from Cons.IH [OF zs this] show ?thesis by auto
  qed
qed

lemma sampleEnv_simps:
  "convertToHTMLFile sampleEnv s f = Inr \<lparr>html = s, assets = {}, htmlTags = []\<rparr>"
  "escapeClozesAndMacroDelimiters sampleEnv s = s"
  "getPage sampleEnv (Name nm) =
     Inr (map_option (\<lambda>i. \<lparr>page_id = i, page_name = nm\<rparr>) (map_of samplePages nm))"
  "getPage sampleEnv (Id i) = Inr None"
  "getBlock sampleEnv (Id i) w = Inr (if i = 100 then Some groupParent else None)"
  "getBlock sampleEnv (Name u) w =
     Inr (map_of [(''b'', groupChild), (''c'', taggedChild), (''z'', zeroDepthBlock)] u)"
  "logseqCard_blocks sampleEnv = Inr [zeroDepthBlock]"
  "flashCard_blocks sampleEnv = Inr []"
  "logseqCardGroup_blocks sampleEnv = Inr [groupChild, taggedChild]"
  "getUUIDFromBlock sampleEnv = block_uuid"
  "JSON_stringify sampleEnv fs = concat (map (\<lambda>(k, v). k @ ''='' @ v @ '';'') fs)"
  "stringToNumber sampleEnv s = None"
  "inheritedMember sampleEnv =
     map_of [(''constructor'', ''function Object() { [native code] }''),
             (''toString'', ''function toString() { [native code] }''),
             (''valueOf'', ''function valueOf() { [native code] }''),
             (''hasOwnProperty'', ''function hasOwnProperty() { [native code] }'')]"
  by (simp_all add: sampleEnv_def)

text \<open>
  In the sample graph a field mapped to \<^verbatim>\<open>constructor\<close> on a note without such a
  property resolves to the inherited function's string form, and a field mapped to a name
  that is neither an own nor an inherited key resolves to the empty string.
\<close>

lemma getFieldContent_inherited_and_absent:
  "getFieldContent sampleEnv
     \<lparr>uuid = ''u1'', content = ''Q'', format = ''markdown'',
       properties = [(''anki-field-Back'', JStr ''constructor'')], page = None, tagIds = [],
       children = [], tags = []\<rparr> (JStr ''constructor'')
     = Inr ''function Object() { [native code] }''
   \<and> getFieldContent sampleEnv
     \<lparr>uuid = ''u1'', content = ''Q'', format = ''markdown'',
       properties = [(''anki-field-Back'', JStr ''answer'')], page = None, tagIds = [],
       children = [], tags = []\<rparr> (JStr ''answer'')
     = Inr ''''"
  by (simp add: getFieldContent_def sampleEnv_simps)

lemma rejectingEnv_getPage:
  "getPage rejectingEnv r =
     (if r = Name ''reversed'' then Inl (Rejected ''getPage failed'') else getPage sampleEnv r)"
  by (simp add: rejectingEnv_def)

section \<open>Tag resolution\<close>

text \<open>When every lookup returns, the loop appends the matching candidates in their order.\<close>

lemma matchLoop_resolved:
  "\<forall>nm \<in> set names. \<exists>r. getPage E (Name nm) = Inr r \<Longrightarrow>
   matchLoop E S names acc =
     Inr (acc @ filter (\<lambda>nm. \<exists>p. getPage E (Name nm) = Inr (Some p)
                                  \<and> page_id p \<noteq> 0 \<and> page_id p \<in> S) names)"
proof (induction names arbitrary: acc)
  case Nil
  then show ?case by simp
next
  case (Cons nm names)
  from Cons.prems obtain r where r: "getPage E (Name nm) = Inr r" by auto
  from Cons.prems have rest: "\<forall>nm \<in> set names. \<exists>r. getPage E (Name nm) = Inr r" by simp
  show ?case
    by (cases r) (simp_all add: r Cons.IH [OF rest])
qed

text \<open>The first rejected lookup ends the loop with its error.\<close>

lemma matchLoop_rejected:
  "\<forall>nm \<in> set before. \<exists>r. getPage E (Name nm) = Inr r \<Longrightarrow>
   getPage E (Name bad) = Inl e \<Longrightarrow>
   matchLoop E S (before @ bad # after) acc = Inl e"
proof (induction before arbitrary: acc)
  case Nil
  then show ?case by simp
next
  case (Cons nm before)
  from Cons.prems obtain r where r: "getPage E (Name nm) = Inr r" by auto
  from Cons.prems have rest: "\<forall>nm \<in> set before. \<exists>r. getPage E (Name nm) = Inr r" by simp
  show ?case
    by (simp add: r Cons.IH [OF rest Cons.prems(2)])
qed

lemma matchLoop_subset:
  "matchLoop E S names acc = Inr r \<Longrightarrow> set r \<subseteq> set acc \<union> set names"
proof (induction names arbitrary: acc)
  case Nil
  then show ?case by auto
next
  case (Cons nm names)
  show ?case
  proof (cases "getPage E (Name nm)")
    case (Inl e)
    with Cons.prems show ?thesis by simp
  next
    case (Inr tagPage)
    with Cons.prems have
      "matchLoop E S names
         (if (case tagPage of None \<Rightarrow> False | Some p \<Rightarrow> page_id p \<noteq> 0 \<and> page_id p \<in> S)
          then acc @ [nm] else acc) = Inr r"
      by simp
    from Cons.IH [OF this] show ?thesis
      by (auto split: if_splits)
  qed
qed

lemma getRelevantTags_subset:
  "getRelevantTags E ids = Inr r \<Longrightarrow> set r \<subseteq> set relevantTagNames"
  using matchLoop_subset [of E "set ids" relevantTagNames "[]" r]
  by (simp add: getRelevantTags_def matchTagNamesWithTagIds_def)

lemma sample_getRelevantTags:
  "getRelevantTags sampleEnv [20] = Inr [''depth-0'']"
  "getRelevantTags sampleEnv [] = Inr []"
  "getRelevantTags sampleEnv [11] = Inr [''forward'']"
  "getRelevantTags sampleEnv [30, 12] = Inr [''reversed'']"
  by (simp_all add: getRelevantTags_def matchTagNamesWithTagIds_def relevantTagNames_eq
      sampleEnv_simps samplePages_def)

text \<open>
  C8, as the code has it. When no page lookup is rejected, \<^verbatim>\<open>matchTagNamesWithTagIds\<close>
  returns exactly the candidate names, in candidate order, whose lookup yields a page with a
  non-zero id that is in the id set; a candidate whose lookup yields no page is left out. A
  rejected lookup is not caught: the resolution as a whole is rejected with the error of the
  first such lookup.
\<close>

theorem matchTagNamesWithTagIds_resolution:
  "((\<forall>nm \<in> set names. \<exists>r. getPage E (Name nm) = Inr r)
      \<longrightarrow> matchTagNamesWithTagIds E ids names =
            Inr (filter (\<lambda>nm. \<exists>p. getPage E (Name nm) = Inr (Some p)
                                  \<and> page_id p \<noteq> 0 \<and> page_id p \<in> set ids) names))
   \<and> (names = before @ [bad] @ after
        \<and> (\<forall>nm \<in> set before. \<exists>r. getPage E (Name nm) = Inr r)
        \<and> getPage E (Name bad) = Inl e
      \<longrightarrow> matchTagNamesWithTagIds E ids names = Inl e)"
  by (simp add: matchTagNamesWithTagIds_def matchLoop_resolved matchLoop_rejected)

theorem matchTagNamesWithTagIds_resolution_witness:
  "matchTagNamesWithTagIds sampleEnv [12, 11, 99]
       [''forward'', ''nopage'', ''depth-1'', ''reversed'']
     = Inr [''forward'', ''reversed'']
   \<and> matchTagNamesWithTagIds rejectingEnv [11] [''forward'', ''reversed'', ''depth-1'']
     = Inl (Rejected ''getPage failed'')"
  using matchTagNamesWithTagIds_resolution [of
      "[''forward'', ''nopage'', ''depth-1'', ''reversed'']" sampleEnv "[12, 11, 99]"]
    matchTagNamesWithTagIds_resolution [of
      "[''forward'', ''reversed'', ''depth-1'']" rejectingEnv _
      "[''forward'']" "''reversed''" "[''depth-1'']" "Rejected ''getPage failed''"]
  by (simp add: sampleEnv_simps rejectingEnv_getPage samplePages_def)

text \<open>
  The lookup of \<^verbatim>\<open>forward\<close> finds a page whose id is in the id set, the lookup of
  \<^verbatim>\<open>reversed\<close> is rejected: the resolution is rejected, it does not return \<^verbatim>\<open>forward\<close>.
\<close>

theorem matchTagNamesWithTagIds_rejection_counterexample:
  "getPage rejectingEnv (Name ''forward'')
       = Inr (Some \<lparr>page_id = 11, page_name = ''forward''\<rparr>)
   \<and> getPage rejectingEnv (Name ''reversed'') = Inl (Rejected ''getPage failed'')
   \<and> matchTagNamesWithTagIds rejectingEnv [11] [''forward'', ''reversed'']
       = Inl (Rejected ''getPage failed'')"
  by (simp add: matchTagNamesWithTagIds_def sampleEnv_simps rejectingEnv_getPage
      samplePages_def)

section \<open>The tags of a constructed note\<close>

lemma attachParentTags_vocabulary:
  "attachParentTags E b = Inr row \<Longrightarrow>
   \<exists>ts. tagsFromParentCardGroup row = Some ts \<and> set ts \<subseteq> set relevantTagNames"
  by (auto simp: attachParentTags_def bindE_Inr_iff split: option.splits
           dest!: getRelevantTags_subset)

lemma attachParentTags_parent:
  "block_parent b = Some parent \<Longrightarrow> parent \<noteq> 0 \<Longrightarrow>
   getBlock E (Id parent) False = Inr (Some parentBlock) \<Longrightarrow>
   getRelevantTags E (block_refs parentBlock) = Inr parentTags \<Longrightarrow>
   attachParentTags E b = Inr \<lparr>entity = b, tagsFromParentCardGroup = Some parentTags\<rparr>"
  by (simp add: attachParentTags_def)

lemma collectRows_vocabulary:
  assumes "collectRows E = Inr rows" and "row \<in> set rows"
  shows "case tagsFromParentCardGroup row of
           None \<Rightarrow> True
         | Some ts \<Rightarrow> set ts \<subseteq> set relevantTagNames"
proof -
  from assms(1) obtain cardRows flashRows groupRows groupRows' where
    att: "mapE (attachParentTags E) groupRows = Inr groupRows'" and
    rows: "rows = map plainRow cardRows @ map plainRow flashRows @ groupRows'"
    by (auto simp: collectRows_def bindE_Inr_iff)
  from assms(2) rows consider
    "row \<in> plainRow ` (set cardRows \<union> set flashRows)" | "row \<in> set groupRows'"
    by auto
  then show ?thesis
  proof cases
    case 1
    then show ?thesis by (auto simp: plainRow_def)
  next
    case 2
    from mapE_Inr_member [OF att 2] obtain b where "attachParentTags E b = Inr row" by auto
    from attachParentTags_vocabulary [OF this] show ?thesis by auto
  qed
qed

text \<open>When the lookups of the second callback return and the block is found, the note is built.\<close>

lemma buildNote_built:
  "(case block_page (entity row) of None \<Rightarrow> Inr None | Some pageId \<Rightarrow> getPage E (Id pageId))
     = Inr notePage \<Longrightarrow>
   getBlock E (Name (getUUIDFromBlock E (entity row))) True = Inr (Some fb) \<Longrightarrow>
   getRelevantTags E (block_refs fb) = Inr ownTags \<Longrightarrow>
   buildNote E row =
     Inr (Some \<lparr>uuid = getUUIDFromBlock E (entity row),
                content = block_content fb, format = block_format fb,
                properties = block_properties fb, page = notePage,
                tagIds = block_refs fb, children = block_children fb,
                tags = (if ownTags \<noteq> [] then ownTags
                        else case tagsFromParentCardGroup row of None \<Rightarrow> [] | Some ts \<Rightarrow> ts)\<rparr>)"
  by (simp add: buildNote_def Let_def)

lemma buildNote_tags:
  assumes "buildNote E row = Inr (Some n)"
  shows "\<exists>fb ownTags. getBlock E (Name (getUUIDFromBlock E (entity row))) True = Inr (Some fb)
     \<and> getRelevantTags E (block_refs fb) = Inr ownTags
     \<and> tags n = (if ownTags \<noteq> [] then ownTags
                 else case tagsFromParentCardGroup row of None \<Rightarrow> [] | Some ts \<Rightarrow> ts)"
proof (cases "case block_page (entity row) of None \<Rightarrow> Inr None
              | Some pageId \<Rightarrow> getPage E (Id pageId)")
  case (Inl e)
  with assms show ?thesis by (simp add: buildNote_def Let_def)
next
  case pg: (Inr notePage)
  show ?thesis
  proof (cases "getBlock E (Name (getUUIDFromBlock E (entity row))) True")
    case (Inl e)
    with assms pg show ?thesis by (simp add: buildNote_def Let_def)
  next
    case (Inr fullBlock)
    show ?thesis
    proof (cases fullBlock)
      case None
      with assms pg Inr show ?thesis by (simp add: buildNote_def Let_def)
    next
      case (Some fb)
      with Inr have fb: "getBlock E (Name (getUUIDFromBlock E (entity row))) True = Inr (Some fb)"
        by simp
      show ?thesis
      proof (cases "getRelevantTags E (block_refs fb)")
        case (Inl e)
        with assms pg fb show ?thesis by (simp add: buildNote_def Let_def)
      next
        case own: (Inr ownTags)
        from assms buildNote_built [OF pg fb own]
        have "tags n = (if ownTags \<noteq> [] then ownTags
                 else case tagsFromParentCardGroup row of None \<Rightarrow> [] | Some ts \<Rightarrow> ts)"
          by auto
        with fb own show ?thesis by blast
      qed
    qed
  qed
qed

lemma sample_collectRows:
  "collectRows sampleEnv =
     Inr [plainRow zeroDepthBlock,
          \<lparr>entity = groupChild, tagsFromParentCardGroup = Some [''reversed'']\<rparr>,
          \<lparr>entity = taggedChild, tagsFromParentCardGroup = Some [''reversed'']\<rparr>]"
  by (simp add: collectRows_def sampleEnv_simps attachParentTags_def groupChild_def
      taggedChild_def groupParent_def sample_getRelevantTags)

lemma sample_constructNotes:
  "constructNotes sampleEnv =
     Inr [Some \<lparr>uuid = ''z'', content = ''Zero'', format = ''markdown'', properties = [],
                page = None, tagIds = [20], children = [answerBlock], tags = [''depth-0'']\<rparr>,
          Some \<lparr>uuid = ''b'', content = ''Question?'', format = ''markdown'', properties = [],
                page = None, tagIds = [], children = [answerBlock], tags = [''reversed'']\<rparr>,
          Some \<lparr>uuid = ''c'', content = ''Other?'', format = ''markdown'', properties = [],
                page = None, tagIds = [11], children = [], tags = [''forward'']\<rparr>]"
  by (simp add: constructNotes_def sample_collectRows buildNote_def plainRow_def
      sampleEnv_simps Let_def zeroDepthBlock_def groupChild_def taggedChild_def
      sample_getRelevantTags)

text \<open>
  C9, as the code has it. The tags of every note that the extraction constructs are among
  \<^verbatim>\<open>forward\<close>, \<^verbatim>\<open>reversed\<close>, \<^verbatim>\<open>bidirectional\<close>, \<^verbatim>\<open>incremental\<close> and
  \<^verbatim>\<open>depth-0\<close>, ..., \<^verbatim>\<open>depth-9\<close>: the candidate vocabulary starts at \<^verbatim>\<open>depth-0\<close>.
\<close>

theorem constructed_tags_vocabulary:
  assumes "constructNotes E = Inr built" and "Some n \<in> set built"
  shows "set (tags n) \<subseteq>
           {''forward'', ''reversed'', ''bidirectional'', ''incremental'',
            ''depth-0'', ''depth-1'', ''depth-2'', ''depth-3'', ''depth-4'', ''depth-5'',
            ''depth-6'', ''depth-7'', ''depth-8'', ''depth-9''}"
proof -
  from assms(1) obtain rows where
    rows: "collectRows E = Inr rows" and built: "mapE (buildNote E) rows = Inr built"
    by (auto simp: constructNotes_def bindE_Inr_iff)
  from mapE_Inr_member [OF built assms(2)] obtain row where
    row: "row \<in> set rows" and bn: "buildNote E row = Inr (Some n)" by auto
  from buildNote_tags [OF bn] obtain fb ownTags where
    own: "getRelevantTags E (block_refs fb) = Inr ownTags" and
    tg: "tags n = (if ownTags \<noteq> [] then ownTags
                   else case tagsFromParentCardGroup row of None \<Rightarrow> [] | Some ts \<Rightarrow> ts)"
    by auto
  have "set (tags n) \<subseteq> set relevantTagNames"
    using getRelevantTags_subset [OF own] collectRows_vocabulary [OF rows row] tg
    by (auto split: option.splits if_splits)
  then show ?thesis
    by (simp add: relevantTagNames_eq)
qed

theorem constructed_tags_vocabulary_witness:
  "set (tags \<lparr>uuid = ''b'', content = ''Question?'', format = ''markdown'', properties = [],
               page = None, tagIds = [], children = [answerBlock], tags = [''reversed'']\<rparr>)
     \<subseteq> {''forward'', ''reversed'', ''bidirectional'', ''incremental'',
         ''depth-0'', ''depth-1'', ''depth-2'', ''depth-3'', ''depth-4'', ''depth-5'',
         ''depth-6'', ''depth-7'', ''depth-8'', ''depth-9''}"
  by (rule constructed_tags_vocabulary [OF sample_constructNotes]) simp

text \<open>
  In the sample graph the user has created the page \<^verbatim>\<open>depth-0\<close> and the card block
  refers to it: the note constructed from that block has the tag \<^verbatim>\<open>depth-0\<close>, which is
  none of \<^verbatim>\<open>forward\<close>, \<^verbatim>\<open>reversed\<close>, \<^verbatim>\<open>bidirectional\<close>, \<^verbatim>\<open>incremental\<close>,
  \<^verbatim>\<open>depth-1\<close>, ..., \<^verbatim>\<open>depth-9\<close>.
\<close>

theorem constructed_tags_depth0_counterexample:
  "constructNotes sampleEnv =
     Inr [Some \<lparr>uuid = ''z'', content = ''Zero'', format = ''markdown'', properties = [],
                page = None, tagIds = [20], children = [answerBlock], tags = [''depth-0'']\<rparr>,
          Some \<lparr>uuid = ''b'', content = ''Question?'', format = ''markdown'', properties = [],
                page = None, tagIds = [], children = [answerBlock], tags = [''reversed'']\<rparr>,
          Some \<lparr>uuid = ''c'', content = ''Other?'', format = ''markdown'', properties = [],
                page = None, tagIds = [11], children = [], tags = [''forward'']\<rparr>]
   \<and> ''depth-0'' \<notin> {''forward'', ''reversed'', ''bidirectional'', ''incremental'',
         ''depth-1'', ''depth-2'', ''depth-3'', ''depth-4'', ''depth-5'',
         ''depth-6'', ''depth-7'', ''depth-8'', ''depth-9''}"
  by (simp add: sample_constructNotes)

lemma mapE_list_all2:
  "mapE f xs = Inr ys \<Longrightarrow> list_all2 (\<lambda>x y. f x = Inr y) xs ys"
proof (induction xs arbitrary: ys)
  case Nil
  then show ?case by simp
next
  case (Cons x xs)
  from Cons.prems obtain z zs where
    z: "f x = Inr z" and zs: "mapE f xs = Inr zs" and ys: "ys = z # zs"
    by (auto simp: bindE_Inr_iff)
  from Cons.IH [OF zs] z ys show ?case by simp
qed

text \<open>
  What the two callbacks do to one block of the card-group query: the note built from the
  annotated row has the block's own relevant tags if there are any, and otherwise the
  relevant tags of the parent block (none if the block has no parent or the parent is not
  found).
\<close>

lemma cardGroup_block_note:
  assumes att: "attachParentTags E b = Inr row" and bn: "buildNote E row = Inr (Some n)"
  shows "\<exists>parentBlock parentTags fb ownTags.
           (case block_parent b of
              None \<Rightarrow> Inr None
            | Some parent \<Rightarrow> if parent \<noteq> 0 then getBlock E (Id parent) False else Inr None)
             = Inr parentBlock
         \<and> (case parentBlock of
              None \<Rightarrow> Inr []
            | Some pb \<Rightarrow> getRelevantTags E (block_refs pb)) = Inr parentTags
         \<and> getBlock E (Name (getUUIDFromBlock E b)) True = Inr (Some fb)
         \<and> getRelevantTags E (block_refs fb) = Inr ownTags
         \<and> tags n = (if ownTags \<noteq> [] then ownTags else parentTags)"
proof -
  from att obtain parentBlock parentTags where
    pb: "(case block_parent b of
            None \<Rightarrow> Inr None
          | Some parent \<Rightarrow> if parent \<noteq> 0 then getBlock E (Id parent) False else Inr None)
           = Inr parentBlock" and
    pt: "(case parentBlock of
            None \<Rightarrow> Inr []
          | Some pb \<Rightarrow> getRelevantTags E (block_refs pb)) = Inr parentTags" and
    row: "row = \<lparr>entity = b, tagsFromParentCardGroup = Some parentTags\<rparr>"
    unfolding attachParentTags_def bindE_Inr_iff by auto
  from buildNote_tags [OF bn] row obtain fb ownTags where
    "getBlock E (Name (getUUIDFromBlock E b)) True = Inr (Some fb)"
    "getRelevantTags E (block_refs fb) = Inr ownTags"
    "tags n = (if ownTags \<noteq> [] then ownTags else parentTags)"
    by auto
  with pb pt show ?thesis by blast
qed

text \<open>
  C10. The extraction builds its notes from the blocks of the card query, then those of the
  flashcard query, then those of the card-group query, one entry per block. For every block
  of the card-group query for which a note is constructed, the tags of that note are the
  block's own relevant tags whenever that list is non-empty, and the relevant tags of the
  parent block (the empty list if the block has no parent or the parent is not found) only
  when the block's own list is empty. The two lists are not merged.
\<close>

theorem cardGroup_note_tags:
  assumes "logseqCard_blocks E = Inr cardRows"
    and "flashCard_blocks E = Inr flashRows"
    and "logseqCardGroup_blocks E = Inr groupRows"
    and "constructNotes E = Inr built"
  shows "\<exists>cardNotes flashNotes groupNotes.
           built = cardNotes @ flashNotes @ groupNotes
         \<and> length cardNotes = length cardRows
         \<and> length flashNotes = length flashRows
         \<and> list_all2
             (\<lambda>b built_note. case built_note of
                 None \<Rightarrow> True
               | Some n \<Rightarrow>
                   \<exists>parentBlock parentTags fb ownTags.
                     (case block_parent b of
                        None \<Rightarrow> Inr None
                      | Some parent \<Rightarrow>
                          if parent \<noteq> 0 then getBlock E (Id parent) False else Inr None)
                       = Inr parentBlock
                   \<and> (case parentBlock of
                        None \<Rightarrow> Inr []
                      | Some pb \<Rightarrow> getRelevantTags E (block_refs pb)) = Inr parentTags
                   \<and> getBlock E (Name (getUUIDFromBlock E b)) True = Inr (Some fb)
                   \<and> getRelevantTags E (block_refs fb) = Inr ownTags
                   \<and> tags n = (if ownTags \<noteq> [] then ownTags else parentTags))
             groupRows groupNotes"
proof -
  from assms obtain rows groupRows' where
    att: "mapE (attachParentTags E) groupRows = Inr groupRows'" and
    rows: "rows = map plainRow cardRows @ map plainRow flashRows @ groupRows'" and
    built: "mapE (buildNote E) rows = Inr built"
    by (auto simp: constructNotes_def collectRows_def bindE_Inr_iff)
  from mapE_list_all2 [OF built] rows
  have "list_all2 (\<lambda>row y. buildNote E row = Inr y)
          (map plainRow cardRows @ map plainRow flashRows @ groupRows') built"
    by simp
  then obtain cardNotes rest where
    b1: "built = cardNotes @ rest" and
    l1: "length cardNotes = length (map plainRow cardRows)" and
    r1: "list_all2 (\<lambda>row y. buildNote E row = Inr y) (map plainRow flashRows @ groupRows') rest"
    by (auto simp: list_all2_append1)
  from r1 obtain flashNotes groupNotes where
    b2: "rest = flashNotes @ groupNotes" and
    l2: "length flashNotes = length (map plainRow flashRows)" and
    r2: "list_all2 (\<lambda>row y. buildNote E row = Inr y) groupRows' groupNotes"
    by (auto simp: list_all2_append1)
  have len: "length groupRows = length groupNotes"
    using list_all2_lengthD [OF mapE_list_all2 [OF att]] list_all2_lengthD [OF r2] by simp
  have rel: "list_all2
          (\<lambda>b built_note. case built_note of
              None \<Rightarrow> True
            | Some n \<Rightarrow>
                \<exists>parentBlock parentTags fb ownTags.
                  (case block_parent b of
                     None \<Rightarrow> Inr None
                   | Some parent \<Rightarrow>
                       if parent \<noteq> 0 then getBlock E (Id parent) False else Inr None)
                    = Inr parentBlock
                \<and> (case parentBlock of
                     None \<Rightarrow> Inr []
                   | Some pb \<Rightarrow> getRelevantTags E (block_refs pb)) = Inr parentTags
                \<and> getBlock E (Name (getUUIDFromBlock E b)) True = Inr (Some fb)
                \<and> getRelevantTags E (block_refs fb) = Inr ownTags
                \<and> tags n = (if ownTags \<noteq> [] then ownTags else parentTags))
          groupRows groupNotes"
  proof (rule list_all2_all_nthI [OF len])
    fix i assume i: "i < length groupRows"
    from mapE_list_all2 [OF att] i
    have a: "attachParentTags E (groupRows ! i) = Inr (groupRows' ! i)"
      by (rule list_all2_nthD)
    from mapE_list_all2 [OF att] have "length groupRows = length groupRows'"
      by (rule list_all2_lengthD)
    with i have "i < length groupRows'" by simp
    with r2 have bld: "buildNote E (groupRows' ! i) = Inr (groupNotes ! i)"
      by (rule list_all2_nthD)
    show "case groupNotes ! i of
            None \<Rightarrow> True
          | Some n \<Rightarrow>
              \<exists>parentBlock parentTags fb ownTags.
                (case block_parent (groupRows ! i) of
                   None \<Rightarrow> Inr None
                 | Some parent \<Rightarrow>
                     if parent \<noteq> 0 then getBlock E (Id parent) False else Inr None)
                  = Inr parentBlock
              \<and> (case parentBlock of
                   None \<Rightarrow> Inr []
                 | Some pb \<Rightarrow> getRelevantTags E (block_refs pb)) = Inr parentTags
              \<and> getBlock E (Name (getUUIDFromBlock E (groupRows ! i))) True = Inr (Some fb)
              \<and> getRelevantTags E (block_refs fb) = Inr ownTags
              \<and> tags n = (if ownTags \<noteq> [] then ownTags else parentTags)"
    proof (cases "groupNotes ! i")
      case None
      then show ?thesis by simp
    next
      case (Some n)
      with bld have "buildNote E (groupRows' ! i) = Inr (Some n)" by simp
      from cardGroup_block_note [OF a this] Some show ?thesis by simp
    qed
  qed
  from b1 b2 have b: "built = cardNotes @ flashNotes @ groupNotes" by simp
  from l1 have lc: "length cardNotes = length cardRows" by simp
  from l2 have lf: "length flashNotes = length flashRows" by simp
  from b lc lf rel show ?thesis by blast
qed

text \<open>
  In the sample graph the card-group query finds two blocks under the parent tagged
  \<^verbatim>\<open>reversed\<close>: the one without tags of its own gets the parent's tag, the one tagged
  \<^verbatim>\<open>forward\<close> keeps its own.
\<close>

lemma sample_cardGroup_notes:
  assumes "[Some \<lparr>uuid = ''z'', content = ''Zero'', format = ''markdown'', properties = [],
                 page = None, tagIds = [20], children = [answerBlock], tags = [''depth-0'']\<rparr>,
            Some \<lparr>uuid = ''b'', content = ''Question?'', format = ''markdown'', properties = [],
                 page = None, tagIds = [], children = [answerBlock], tags = [''reversed'']\<rparr>,
            Some \<lparr>uuid = ''c'', content = ''Other?'', format = ''markdown'', properties = [],
                 page = None, tagIds = [11], children = [], tags = [''forward'']\<rparr>]
           = cardNotes @ flashNotes @ groupNotes"
    and "length cardNotes = length [zeroDepthBlock]"
    and "length flashNotes = length ([] :: block list)"
  shows "groupNotes =
           [Some \<lparr>uuid = ''b'', content = ''Question?'', format = ''markdown'', properties = [],
                  page = None, tagIds = [], children = [answerBlock], tags = [''reversed'']\<rparr>,
            Some \<lparr>uuid = ''c'', content = ''Other?'', format = ''markdown'', properties = [],
                  page = None, tagIds = [11], children = [], tags = [''forward'']\<rparr>]"
proof -
  from assms(3) have "flashNotes = []" by simp
  moreover from assms(2) obtain x where "cardNotes = [x]"
    by (cases cardNotes) auto
  ultimately show ?thesis using assms(1) by simp
qed

theorem cardGroup_note_tags_witness:
  "list_all2
     (\<lambda>b built_note. case built_note of
         None \<Rightarrow> True
       | Some n \<Rightarrow>
           \<exists>parentBlock parentTags fb ownTags.
             (case block_parent b of
                None \<Rightarrow> Inr None
              | Some parent \<Rightarrow>
                  if parent \<noteq> 0 then getBlock sampleEnv (Id parent) False else Inr None)
               = Inr parentBlock
           \<and> (case parentBlock of
                None \<Rightarrow> Inr []
              | Some pb \<Rightarrow> getRelevantTags sampleEnv (block_refs pb)) = Inr parentTags
           \<and> getBlock sampleEnv (Name (getUUIDFromBlock sampleEnv b)) True = Inr (Some fb)
           \<and> getRelevantTags sampleEnv (block_refs fb) = Inr ownTags
           \<and> tags n = (if ownTags \<noteq> [] then ownTags else parentTags))
     [groupChild, taggedChild]
     [Some \<lparr>uuid = ''b'', content = ''Question?'', format = ''markdown'', properties = [],
            page = None, tagIds = [], children = [answerBlock], tags = [''reversed'']\<rparr>,
      Some \<lparr>uuid = ''c'', content = ''Other?'', format = ''markdown'', properties = [],
            page = None, tagIds = [11], children = [], tags = [''forward'']\<rparr>]"
  (is "list_all2 ?R ?blocks ?notes")
proof -
  from cardGroup_note_tags [OF sampleEnv_simps(7) sampleEnv_simps(8) sampleEnv_simps(9)
      sample_constructNotes]
  obtain cardNotes flashNotes groupNotes where
    b: "[Some \<lparr>uuid = ''z'', content = ''Zero'', format = ''markdown'', properties = [],
             page = None, tagIds = [20], children = [answerBlock], tags = [''depth-0'']\<rparr>,
        Some \<lparr>uuid = ''b'', content = ''Question?'', format = ''markdown'', properties = [],
             page = None, tagIds = [], children = [answerBlock], tags = [''reversed'']\<rparr>,
        Some \<lparr>uuid = ''c'', content = ''Other?'', format = ''markdown'', properties = [],
             page = None, tagIds = [11], children = [], tags = [''forward'']\<rparr>]
         = cardNotes @ flashNotes @ groupNotes" and
    lc: "length cardNotes = length [zeroDepthBlock]" and
    lf: "length flashNotes = length ([] :: block list)" and
    rel: "list_all2 ?R ?blocks groupNotes"
    by blast
  from rel show ?thesis
    unfolding sample_cardGroup_notes [OF b lc lf] .
qed

section \<open>Recursive children rendering\<close>

lemma level_ge_JNum: "level_ge E level (JNum m) = (m \<le> int level)"
  by (simp add: level_ge_def)

text \<open>
  If the nested lists one level down do not change when the forest is cut \<open>d\<close> levels below
  its roots, then the loop at this level does not change when the forest is cut \<open>d + 1\<close>
  levels below its roots.
\<close>

lemma childrenLoop_cut:
  assumes nested: "\<And>cs. getChildrenListHTML E m cs (Suc level)
                         = getChildrenListHTML E m (map (cutBelow d) cs) (Suc level)"
  shows "childrenLoop E m (map (cutBelow (Suc d)) cs) level acc = childrenLoop E m cs level acc"
proof (induction cs arbitrary: acc)
  case Nil
  show ?case by simp
next
  case (Cons b cs)
  obtain u c f ps rs pa pg ds where b: "b = Block u c f ps rs pa pg ds" by (cases b)
  show ?case
    by (simp add: b Cons.IH Let_def nested [of ds, symmetric])
qed

text \<open>If the nested lists one level down are empty, the children of the roots are not read.\<close>

lemma childrenLoop_cut0:
  assumes nested: "\<And>cs. getChildrenListHTML E m cs (Suc level) = Inr []"
  shows "childrenLoop E m (map (cutBelow 0) cs) level acc = childrenLoop E m cs level acc"
proof (induction cs arbitrary: acc)
  case Nil
  show ?case by simp
next
  case (Cons b cs)
  obtain u c f ps rs pa pg ds where b: "b = Block u c f ps rs pa pg ds" by (cases b)
  show ?case
    by (simp add: b Cons.IH Let_def nested)
qed

text \<open>
  With maximal depth \<open>N\<close>, the list rendered at \<open>level\<close> reads the forest only down to
  level \<open>N - 1\<close>: cutting it \<open>d\<close> levels below its roots changes nothing when
  \<open>N \<le> level + d + 1\<close>.
\<close>

lemma getChildrenListHTML_cut:
  "N \<le> Suc (level + d) \<Longrightarrow>
   getChildrenListHTML E (JNum (int N)) (map (cutBelow d) cs) level
     = getChildrenListHTML E (JNum (int N)) cs level"
proof (induction d arbitrary: level cs)
  case 0
  show ?case
  proof (cases "N \<le> level")
    case True
    then show ?thesis by (simp add: getChildrenListHTML.simps level_ge_JNum)
  next
    case False
    with 0 have "\<And>cs. getChildrenListHTML E (JNum (int N)) cs (Suc level) = Inr []"
      by (simp add: getChildrenListHTML.simps level_ge_JNum)
    from childrenLoop_cut0 [OF this] show ?thesis
      by (simp add: getChildrenListHTML.simps)
  qed
next
  case (Suc d)
  show ?case
  proof (cases "N \<le> level")
    case True
    then show ?thesis by (simp add: getChildrenListHTML.simps level_ge_JNum)
  next
    case False
    from Suc.prems have "N \<le> Suc (Suc level + d)" by simp
    from Suc.IH [OF this]
    have "\<And>cs. getChildrenListHTML E (JNum (int N)) cs (Suc level)
              = getChildrenListHTML E (JNum (int N)) (map (cutBelow d) cs) (Suc level)"
      by simp
    from childrenLoop_cut [OF this] show ?thesis
      by (simp add: getChildrenListHTML.simps)
  qed
qed

text \<open>
  C2. For every list of child subtrees and every maximal depth \<open>N\<close>, the rendering is the
  rendering of the same list without the descendants more than \<open>N\<close> levels below the direct
  children, so nothing of these descendants is emitted; and for \<open>N = 0\<close> the rendering is
  the empty string.
\<close>

theorem getChildrenListHTML_depth_cap:
  "getChildrenListHTML E (JNum (int N)) cs 0
     = getChildrenListHTML E (JNum (int N)) (map (cutBelow N) cs) 0
   \<and> getChildrenListHTML E (JNum 0) cs 0 = Inr ''''"
  by (simp add: getChildrenListHTML_cut) (simp add: getChildrenListHTML.simps level_ge_JNum)

text \<open>
  Three nested levels under the maximal depth 2, with the identity renderer: the first two
  levels are rendered, the third is not.
\<close>

lemma depth_two_of_three_levels:
  \<open>getChildrenListHTML sampleEnv (JNum 2)
     [Block ''l1'' ''one'' ''markdown'' [(''logseq.orderListType'', JStr ''number'')] [] None None
        [Block ''l2'' ''two'' ''markdown'' [(''extra'', JStr ''x'')] [] None None
           [Block ''l3'' ''three'' ''markdown'' [] [] None None []]]] 0
   = Inr (''\<newline><ul class="children-list left-border">''
          @ ''\<newline><li class="children numbered">one''
          @ ''\<newline><ul class="children-list left-border">''
          @ ''\<newline><li class="children ">two\<newline><div class="extra">x</div></li></ul></li></ul>'')\<close>
  by (simp add: getChildrenListHTML.simps level_ge_JNum sampleEnv_simps Let_def)

section \<open>Card assembly\<close>

lemma fieldLoop_no_fields:
  "list_all (\<lambda>(key, v). \<not> prefix ''anki-field-'' key) ps \<Longrightarrow> fieldLoop E n ps acc = Inr acc"
  by (induction ps arbitrary: acc) auto

text \<open>
  Without declared fields the card is assembled whenever the main content (and, for a model
  that is not a cloze model, the children content) resolves and the model name is a string.
\<close>

lemma default_fields_assembled:
  assumes "list_all (\<lambda>(key, v). \<not> prefix ''anki-field-'' key) (properties n)"
    and "getMainContent E n = Inr mainContent"
    and "or_default (map_of (properties n) ''anki-model'') (JStr ''Basic'') = JStr model"
  shows "(sublist ''cloze'' (toLowerCase model) \<longrightarrow>
            getClozedContentHTML E n =
              Inr \<lparr>html = cardHTML model (JSON_stringify E [(''Text'', mainContent)]) mainContent,
                   assets = {}, htmlTags = []\<rparr>)
       \<and> (\<not> sublist ''cloze'' (toLowerCase model)
            \<and> getFieldContent E n (JStr ''children'') = Inr back \<longrightarrow>
            getClozedContentHTML E n =
              Inr \<lparr>html = cardHTML model
                            (JSON_stringify E [(''Front'', mainContent), (''Back'', back)])
                            mainContent,
                   assets = {}, htmlTags = []\<rparr>)"
  using assms
  by (simp add: getClozedContentHTML_def fieldLoop_no_fields Let_def)

text \<open>
  C5. Take a note none of whose property keys starts with \<^verbatim>\<open>anki-field-\<close>. In its
  assembled card the model name (the \<^verbatim>\<open>anki-model\<close> property, or \<^verbatim>\<open>Basic\<close>) is a
  string. If the lower-cased model name contains \<^verbatim>\<open>cloze\<close>, the field record has the
  single field \<^verbatim>\<open>Text\<close>, holding the main content. Otherwise it has exactly the two fields
  \<^verbatim>\<open>Front\<close>, holding the main content, and \<^verbatim>\<open>Back\<close>, holding the resolved
  \<^verbatim>\<open>children\<close> content.
\<close>

theorem default_field_synthesis:
  assumes "list_all (\<lambda>(key, v). \<not> prefix ''anki-field-'' key) (properties n)"
    and "getClozedContentHTML E n = Inr payload"
  shows "\<exists>model mainContent.
           or_default (map_of (properties n) ''anki-model'') (JStr ''Basic'') = JStr model
         \<and> getMainContent E n = Inr mainContent
         \<and> (if sublist ''cloze'' (toLowerCase model)
            then html payload =
                   cardHTML model (JSON_stringify E [(''Text'', mainContent)]) mainContent
            else \<exists>back. getFieldContent E n (JStr ''children'') = Inr back
                   \<and> html payload =
                       cardHTML model
                         (JSON_stringify E [(''Front'', mainContent), (''Back'', back)])
                         mainContent)"
proof (cases "or_default (map_of (properties n) ''anki-model'') (JStr ''Basic'')")
  case (JStr model)
  with assms show ?thesis
    by (auto simp: getClozedContentHTML_def fieldLoop_no_fields Let_def bindE_Inr_iff
             split: if_splits)
next
  case (JNum i)
  with assms show ?thesis
    by (auto simp: getClozedContentHTML_def fieldLoop_no_fields Let_def bindE_Inr_iff)
next
  case (JBool b)
  with assms show ?thesis
    by (auto simp: getClozedContentHTML_def fieldLoop_no_fields Let_def bindE_Inr_iff)
qed

lemma sample_children_list:
  \<open>getChildrenListHTML sampleEnv (JNum 9999) [answerBlock] 0
   = Inr ''\<newline><ul class="children-list left-border">\<newline><li class="children ">Answer 1</li></ul>''\<close>
  by (simp add: getChildrenListHTML.simps level_ge_JNum answerBlock_def sampleEnv_simps Let_def)

lemma sample_default_cards:
  \<open>getClozedContentHTML sampleEnv
     \<lparr>uuid = ''u1'', content = ''Q'', format = ''markdown'',
       properties = [(''anki-model'', JStr ''My Cloze'')], page = None, tagIds = [],
       children = [answerBlock], tags = []\<rparr>
     = Inr \<lparr>html = cardHTML ''My Cloze'' (JSON_stringify sampleEnv [(''Text'', ''Q'')]) ''Q'',
            assets = {}, htmlTags = []\<rparr>\<close>
  \<open>getClozedContentHTML sampleEnv
     \<lparr>uuid = ''u1'', content = ''Q'', format = ''markdown'',
       properties = [(''priority'', JNum 2)], page = None, tagIds = [],
       children = [answerBlock], tags = []\<rparr>
     = Inr \<lparr>html = cardHTML ''Basic''
              (JSON_stringify sampleEnv
                 [(''Front'', ''Q''),
                  (''Back'', ''\<newline><ul class="children-list left-border">\<newline><li class="children ">Answer 1</li></ul>'')])
              ''Q'',
            assets = {}, htmlTags = []\<rparr>\<close>
proof -
  have cloze: "sublist ''cloze'' (toLowerCase ''My Cloze'')"
    by code_simp
  have basic: "\<not> sublist ''cloze'' (toLowerCase ''Basic'')"
    by code_simp
  have main1: "getMainContent sampleEnv
     \<lparr>uuid = ''u1'', content = ''Q'', format = ''markdown'',
       properties = [(''anki-model'', JStr ''My Cloze'')], page = None, tagIds = [],
       children = [answerBlock], tags = []\<rparr> = Inr ''Q''"
    by (simp add: getMainContent_def getCardDirection_def getFieldContent_def sampleEnv_simps)
  have main2: "getMainContent sampleEnv
     \<lparr>uuid = ''u1'', content = ''Q'', format = ''markdown'',
       properties = [(''priority'', JNum 2)], page = None, tagIds = [],
       children = [answerBlock], tags = []\<rparr> = Inr ''Q''"
    by (simp add: getMainContent_def getCardDirection_def getFieldContent_def sampleEnv_simps)
  show \<open>getClozedContentHTML sampleEnv
     \<lparr>uuid = ''u1'', content = ''Q'', format = ''markdown'',
       properties = [(''anki-model'', JStr ''My Cloze'')], page = None, tagIds = [],
       children = [answerBlock], tags = []\<rparr>
     = Inr \<lparr>html = cardHTML ''My Cloze'' (JSON_stringify sampleEnv [(''Text'', ''Q'')]) ''Q'',
            assets = {}, htmlTags = []\<rparr>\<close>
    using default_fields_assembled [OF _ main1, of "''My Cloze''"] cloze
    by (simp add: or_default_def)
  show \<open>getClozedContentHTML sampleEnv
     \<lparr>uuid = ''u1'', content = ''Q'', format = ''markdown'',
       properties = [(''priority'', JNum 2)], page = None, tagIds = [],
       children = [answerBlock], tags = []\<rparr>
     = Inr \<lparr>html = cardHTML ''Basic''
              (JSON_stringify sampleEnv
                 [(''Front'', ''Q''),
                  (''Back'', ''\<newline><ul class="children-list left-border">\<newline><li class="children ">Answer 1</li></ul>'')])
              ''Q'',
            assets = {}, htmlTags = []\<rparr>\<close>
    using default_fields_assembled [OF _ main2, of "''Basic''"] basic
    by (simp add: or_default_def getFieldContent_def getChildrenContent_def
        getChildrenMaxDepth_def sample_children_list)
qed

theorem default_field_synthesis_witness:
  \<open>\<exists>model mainContent.
      or_default (map_of (properties
     \<lparr>uuid = ''u1'', content = ''Q'', format = ''markdown'',
       properties = [(''anki-model'', JStr ''My Cloze'')], page = None, tagIds = [],
       children = [answerBlock], tags = []\<rparr>) ''anki-model'')
        (JStr ''Basic'') = JStr model
    \<and> getMainContent sampleEnv
     \<lparr>uuid = ''u1'', content = ''Q'', format = ''markdown'',
       properties = [(''anki-model'', JStr ''My Cloze'')], page = None, tagIds = [],
       children = [answerBlock], tags = []\<rparr> = Inr mainContent
    \<and> (if sublist ''cloze'' (toLowerCase model)
       then html 
         \<lparr>html = cardHTML ''My Cloze'' (JSON_stringify sampleEnv [(''Text'', ''Q'')]) ''Q'',
          assets = {}, htmlTags = []\<rparr>
            = cardHTML model (JSON_stringify sampleEnv [(''Text'', mainContent)]) mainContent
       else \<exists>back. getFieldContent sampleEnv
     \<lparr>uuid = ''u1'', content = ''Q'', format = ''markdown'',
       properties = [(''anki-model'', JStr ''My Cloze'')], page = None, tagIds = [],
       children = [answerBlock], tags = []\<rparr>
              (JStr ''children'') = Inr back
            \<and> html 
         \<lparr>html = cardHTML ''My Cloze'' (JSON_stringify sampleEnv [(''Text'', ''Q'')]) ''Q'',
          assets = {}, htmlTags = []\<rparr>
               = cardHTML model
                   (JSON_stringify sampleEnv [(''Front'', mainContent), (''Back'', back)])
                   mainContent)\<close>
  by (rule default_field_synthesis [OF _ sample_default_cards(1)]) simp

text \<open>
  C6. In the assembled card the visible main content, which follows the hidden metadata
  block, is the resolved \<^verbatim>\<open>children\<close> field content when the direction is \<^verbatim>\<open><-\<close> or
  \<^verbatim>\<open><->\<close>, and the resolved \<^verbatim>\<open>content\<close> field content otherwise.
\<close>

theorem main_content_by_direction:
  assumes "getClozedContentHTML E n = Inr payload"
  shows "\<exists>mainContent fieldContent.
           (if getCardDirection n = ''<-'' \<or> getCardDirection n = ''<->''
            then getFieldContent E n (JStr ''children'')
            else getFieldContent E n (JStr ''content'')) = Inr mainContent
         \<and> html payload =
             cardHTML (toString (or_default (map_of (properties n) ''anki-model'') (JStr ''Basic'')))
               (JSON_stringify E fieldContent) mainContent"
proof -
  from assms obtain declared mainContent fieldContent where
    main: "getMainContent E n = Inr mainContent" and
    payload: "payload = \<lparr>html = cardHTML
                      (toString (or_default (map_of (properties n) ''anki-model'') (JStr ''Basic'')))
                      (JSON_stringify E fieldContent) mainContent,
                  assets = {}, htmlTags = []\<rparr>"
    by (auto simp: getClozedContentHTML_def Let_def bindE_Inr_iff)
  from main have "(if getCardDirection n = ''<-'' \<or> getCardDirection n = ''<->''
            then getFieldContent E n (JStr ''children'')
            else getFieldContent E n (JStr ''content'')) = Inr mainContent"
    by (simp add: getMainContent_def Let_def)
  with payload show ?thesis by auto
qed

lemma sample_reversed_card:
  \<open>getClozedContentHTML sampleEnv
     \<lparr>uuid = ''u1'', content = ''Q'', format = ''markdown'',
       properties = [(''anki-field-Front'', JStr ''content'')], page = None, tagIds = [],
       children = [answerBlock], tags = [''reversed'']\<rparr>
   = Inr \<lparr>html = cardHTML ''Basic'' (JSON_stringify sampleEnv [(''Front'', ''Q'')])
             ''\<newline><ul class="children-list left-border">\<newline><li class="children ">Answer 1</li></ul>'',
          assets = {}, htmlTags = []\<rparr>\<close>
proof -
  have content: "getFieldContent sampleEnv
     \<lparr>uuid = ''u1'', content = ''Q'', format = ''markdown'',
       properties = [(''anki-field-Front'', JStr ''content'')], page = None, tagIds = [],
       children = [answerBlock], tags = [''reversed'']\<rparr>
     (JStr ''content'') = Inr ''Q''"
    by (simp add: getFieldContent_def sampleEnv_simps)
  have nomatch: "depthTagMatch ''reversed'' = None"
    by (simp add: depthTagMatch_def toLowerCase_def toLowerChar_def)
  show ?thesis
    by (simp add: getClozedContentHTML_def content getMainContent_def getCardDirection_def
        getFieldContent_def getChildrenContent_def getChildrenMaxDepth_def
        sample_children_list nomatch or_default_def sampleEnv_simps)
qed

theorem main_content_by_direction_witness:
  \<open>\<exists>mainContent fieldContent.
      (if getCardDirection
     \<lparr>uuid = ''u1'', content = ''Q'', format = ''markdown'',
       properties = [(''anki-field-Front'', JStr ''content'')], page = None, tagIds = [],
       children = [answerBlock], tags = [''reversed'']\<rparr> = ''<-''
          \<or> getCardDirection
     \<lparr>uuid = ''u1'', content = ''Q'', format = ''markdown'',
       properties = [(''anki-field-Front'', JStr ''content'')], page = None, tagIds = [],
       children = [answerBlock], tags = [''reversed'']\<rparr> = ''<->''
       then getFieldContent sampleEnv
     \<lparr>uuid = ''u1'', content = ''Q'', format = ''markdown'',
       properties = [(''anki-field-Front'', JStr ''content'')], page = None, tagIds = [],
       children = [answerBlock], tags = [''reversed'']\<rparr> (JStr ''children'')
       else getFieldContent sampleEnv
     \<lparr>uuid = ''u1'', content = ''Q'', format = ''markdown'',
       properties = [(''anki-field-Front'', JStr ''content'')], page = None, tagIds = [],
       children = [answerBlock], tags = [''reversed'']\<rparr> (JStr ''content'')) = Inr mainContent
    \<and> html \<lparr>html = cardHTML ''Basic'' (JSON_stringify sampleEnv [(''Front'', ''Q'')])
                ''\<newline><ul class="children-list left-border">\<newline><li class="children ">Answer 1</li></ul>'',
             assets = {}, htmlTags = []\<rparr>
      = cardHTML
          (toString (or_default (map_of (properties
     \<lparr>uuid = ''u1'', content = ''Q'', format = ''markdown'',
       properties = [(''anki-field-Front'', JStr ''content'')], page = None, tagIds = [],
       children = [answerBlock], tags = [''reversed'']\<rparr>) ''anki-model'') (JStr ''Basic'')))
          (JSON_stringify sampleEnv fieldContent) mainContent\<close>
  by (rule main_content_by_direction [OF sample_reversed_card])

section \<open>Candidate deduplication\<close>

text \<open>
  C7, as the code has it. The filter retains a multi-line note if and only if its
  \<^verbatim>\<open>direction\<close> property is present with a truthy value, or its tags include
  \<^verbatim>\<open>forward\<close>, \<^verbatim>\<open>bidirectional\<close> or \<^verbatim>\<open>reversed\<close>, or it has at least one child block,
  or no note of the other extractors has the same uuid. In particular a note with no
  children, no direction property, none of these tags and a same-uuid note of another
  extractor is excluded.
\<close>

theorem dedupFilter_retains:
  "dedupFilter otherNotes notes =
     filter (\<lambda>n. (\<exists>v. map_of (properties n) ''direction'' = Some v \<and> truthy v)
                \<or> ''forward'' \<in> set (tags n) \<or> ''bidirectional'' \<in> set (tags n)
                \<or> ''reversed'' \<in> set (tags n)
                \<or> children n \<noteq> []
                \<or> (\<forall>other \<in> set otherNotes. uuid other \<noteq> uuid n)) notes
   \<and> (children n = [] \<and> map_of (properties n) ''direction'' = None
        \<and> ''forward'' \<notin> set (tags n) \<and> ''bidirectional'' \<notin> set (tags n)
        \<and> ''reversed'' \<notin> set (tags n)
        \<and> (\<exists>other \<in> set otherNotes. uuid other = uuid n)
      \<longrightarrow> n \<notin> set (dedupFilter otherNotes notes))"
proof -
  have eq: "retainNote otherNotes =
     (\<lambda>m. (\<exists>v. map_of (properties m) ''direction'' = Some v \<and> truthy v)
                \<or> ''forward'' \<in> set (tags m) \<or> ''bidirectional'' \<in> set (tags m)
                \<or> ''reversed'' \<in> set (tags m)
                \<or> children m \<noteq> []
                \<or> (\<forall>other \<in> set otherNotes. uuid other \<noteq> uuid m))"
  proof (rule ext)
    fix m :: MultilineCardNote
    show "retainNote otherNotes m =
     ((\<exists>v. map_of (properties m) ''direction'' = Some v \<and> truthy v)
                \<or> ''forward'' \<in> set (tags m) \<or> ''bidirectional'' \<in> set (tags m)
                \<or> ''reversed'' \<in> set (tags m)
                \<or> children m \<noteq> []
                \<or> (\<forall>other \<in> set otherNotes. uuid other \<noteq> uuid m))"
      by (cases "map_of (properties m) ''direction''")
         (auto simp: retainNote_def truthy_opt_def find_None_iff)
  qed
  show ?thesis
    unfolding dedupFilter_def eq by auto
qed

theorem dedupFilter_retains_witness:
  "dedupFilter
     [\<lparr>uuid = ''u1'', content = ''Q'', format = ''markdown'',
       properties = [], page = None, tagIds = []\<rparr>]
     [\<lparr>uuid = ''u1'', content = ''Q'', format = ''markdown'',
       properties = [], page = None, tagIds = [],
       children = [], tags = [''incremental'']\<rparr>,
      \<lparr>uuid = ''u1'', content = ''Q'', format = ''markdown'',
       properties = [(''direction'', JStr ''->'')], page = None, tagIds = [],
       children = [], tags = []\<rparr>,
      \<lparr>uuid = ''u1'', content = ''Q'', format = ''markdown'',
       properties = [], page = None, tagIds = [],
       children = [answerBlock], tags = []\<rparr>,
      \<lparr>uuid = ''u2'', content = ''Q'', format = ''markdown'',
       properties = [], page = None, tagIds = [],
       children = [], tags = []\<rparr>]
   = [\<lparr>uuid = ''u1'', content = ''Q'', format = ''markdown'',
       properties = [(''direction'', JStr ''->'')], page = None, tagIds = [],
       children = [], tags = []\<rparr>,
      \<lparr>uuid = ''u1'', content = ''Q'', format = ''markdown'',
       properties = [], page = None, tagIds = [],
       children = [answerBlock], tags = []\<rparr>,
      \<lparr>uuid = ''u2'', content = ''Q'', format = ''markdown'',
       properties = [], page = None, tagIds = [],
       children = [], tags = []\<rparr>]"
  using dedupFilter_retains [of
     "[\<lparr>uuid = ''u1'', content = ''Q'', format = ''markdown'',
       properties = [], page = None, tagIds = []\<rparr>]"
     "[\<lparr>uuid = ''u1'', content = ''Q'', format = ''markdown'',
       properties = [], page = None, tagIds = [],
       children = [], tags = [''incremental'']\<rparr>,
      \<lparr>uuid = ''u1'', content = ''Q'', format = ''markdown'',
       properties = [(''direction'', JStr ''->'')], page = None, tagIds = [],
       children = [], tags = []\<rparr>,
      \<lparr>uuid = ''u1'', content = ''Q'', format = ''markdown'',
       properties = [], page = None, tagIds = [],
       children = [answerBlock], tags = []\<rparr>,
      \<lparr>uuid = ''u2'', content = ''Q'', format = ''markdown'',
       properties = [], page = None, tagIds = [],
       children = [], tags = []\<rparr>]"]
  by simp

text \<open>
  A note with the property \<^verbatim>\<open>direction:: false\<close>, no tags, no children and a same-uuid
  note of another extractor has a direction property and is not retained.
\<close>

theorem dedupFilter_falsy_direction_counterexample:
  "map_of (properties
     \<lparr>uuid = ''u1'', content = ''Q'', format = ''markdown'',
       properties = [(''direction'', JBool False)], page = None, tagIds = [],
       children = [], tags = []\<rparr>) ''direction'' = Some (JBool False)
   \<and> dedupFilter
        [\<lparr>uuid = ''u1'', content = ''Q'', format = ''markdown'',
       properties = [], page = None, tagIds = []\<rparr>]
        [\<lparr>uuid = ''u1'', content = ''Q'', format = ''markdown'',
       properties = [(''direction'', JBool False)], page = None, tagIds = [],
       children = [], tags = []\<rparr>] = []"
  by (simp add: dedupFilter_def retainNote_def truthy_opt_def)

end
